theory Spec2Isabelle
  imports Main
begin

section \<open>Session identity (PipeLLM.py, lines 8 and 24-25)\<close>

text \<open>
  \<^verbatim>\<open>SOCKET_PREFIX = "\0llm-daemon-"\<close>: a NUL character followed by the text
  \<^verbatim>\<open>llm-daemon-\<close>. A Unix socket address that starts with NUL lives in the
  abstract namespace: it has no entry in the file system.
\<close>

definition SOCKET_PREFIX :: string where
  "SOCKET_PREFIX = CHR 0x00 # ''llm-daemon-''"

text \<open>
  Python's \<^verbatim>\<open>str\<close> on an \<^verbatim>\<open>int\<close>: the decimal digits, most significant
  first, no leading zero, and a minus sign in front of a negative number.
\<close>

definition digit_char :: "nat \<Rightarrow> char" where
  "digit_char d = ''0123456789'' ! d"

function str_nat :: "nat \<Rightarrow> string" where
  "str_nat n = (if n < 10 then [digit_char n] else str_nat (n div 10) @ [digit_char (n mod 10)])"
  by pat_completeness auto
termination
  by (relation "measure id") auto

declare str_nat.simps [simp del]

definition str_int :: "int \<Rightarrow> string" where
  "str_int i = (if i < 0 then CHR ''-'' # str_nat (nat (- i)) else str_nat (nat i))"

text \<open>\<^verbatim>\<open>def get_socket_path(shell_pid): return SOCKET_PREFIX + str(shell_pid)\<close>\<close>

definition get_socket_path :: "int \<Rightarrow> string" where
  "get_socket_path shell_pid = SOCKET_PREFIX @ str_int shell_pid"


section \<open>Python values\<close>

text \<open>
  A Python \<^verbatim>\<open>str\<close> is a sequence of code points, each a number below 0x110000. The
  texts the program exchanges with the daemon are of this type. \<open>lit\<close> turns a literal
  of ASCII characters into the \<^verbatim>\<open>str\<close> it denotes.
\<close>

type_synonym pystr = "nat list"

definition lit :: "string \<Rightarrow> pystr" where
  "lit s = map of_char s"

text \<open>
  What \<^verbatim>\<open>json.loads\<close> returns and \<^verbatim>\<open>json.dumps\<close> accepts: \<^verbatim>\<open>None\<close>, a bool, an
  int, a float, a str, a list or a dict with string keys. A float is given by the text
  \<^verbatim>\<open>json.dumps\<close> writes for it (its \<^verbatim>\<open>repr\<close>, or \<^verbatim>\<open>NaN\<close>, \<^verbatim>\<open>Infinity\<close>,
  \<^verbatim>\<open>-Infinity\<close>), which determines it. A dict is an association list read with
  \<open>map_of\<close>; the dicts of Python have no key twice.
\<close>

datatype json =
    JNull
  | JBool bool
  | JInt int
  | JFloat string
  | JStr pystr
  | JArr "json list"
  | JObj "(pystr \<times> json) list"

text \<open>Python's truth value of a decoded message, as \<^verbatim>\<open>if not data\<close> tests it.\<close>

fun truthy :: "json \<Rightarrow> bool" where
  "truthy JNull = False"
| "truthy (JBool b) = b"
| "truthy (JInt i) = (i \<noteq> 0)"
| "truthy (JFloat r) = (r \<noteq> ''0.0'' \<and> r \<noteq> ''-0.0'')"
| "truthy (JStr s) = (s \<noteq> [])"
| "truthy (JArr xs) = (xs \<noteq> [])"
| "truthy (JObj kvs) = (kvs \<noteq> [])"

text \<open>The exceptions that can travel through the handlers.\<close>

datatype exn =
    BrokenPipeError
  | ConnectionResetError
  | IncompleteReadError
  | JSONDecodeError
  | UnicodeDecodeError
  | ValueError
  | AttributeError

text \<open>
  \<^verbatim>\<open>data.get(key, default)\<close>: only a dict has the method; on any other value Python
  raises \<^verbatim>\<open>AttributeError\<close>.
\<close>

fun dict_get :: "json \<Rightarrow> pystr \<Rightarrow> json \<Rightarrow> exn + json" where
  "dict_get (JObj kvs) k dflt = Inr (case map_of kvs k of None \<Rightarrow> dflt | Some v \<Rightarrow> v)"
| "dict_get _ k dflt = Inl AttributeError"

section \<open>The daemon (PipeLLM.py, lines 15-18, 48-64 and 299-321)\<close>

text \<open>
  \<^verbatim>\<open>@dataclass class State: pid: int; context: str = ""\<close>. The annotation is not
  enforced: \<^verbatim>\<open>set\<close> stores whatever value the request carries.
\<close>

record State =
  pid :: int
  "context" :: json

text \<open>
  The reading side of a connection is the sequence of reads still to come, followed by
  end of file. \<open>Decodes v\<close> is a line that \<^verbatim>\<open>readline\<close> returns and
  \<^verbatim>\<open>json.loads(line.decode())\<close> turns into \<open>v\<close>; \<open>Raises e\<close> is a read on which
  \<^verbatim>\<open>readline\<close>, \<^verbatim>\<open>decode\<close> or \<^verbatim>\<open>json.loads\<close> raises \<open>e\<close>: \<open>JSONDecodeError\<close> for a
  line that is not JSON, \<open>ValueError\<close> for a line longer than the limit of the stream
  reader, \<open>ConnectionResetError\<close> when the peer resets the connection.
\<close>

datatype incoming = Decodes json | Raises exn

type_synonym reader = "incoming list"

text \<open>
  The writing side: the objects written so far, one line each, whether the transport is
  closing, and the error a write meets when the peer is gone.
\<close>

record Writer =
  out :: "json list"
  closing :: bool
  fault :: "exn option"

text \<open>
  \<^verbatim>\<open>
  async def send_json(writer, obj):
      try:
          writer.write((json.dumps(obj) + "\n").encode())
          await writer.drain()
          return True
      except (BrokenPipeError, ConnectionResetError):
          return False
  \<close>
\<close>

definition send_json :: "Writer \<Rightarrow> json \<Rightarrow> exn + (bool \<times> Writer)" where
  "send_json writer obj =
     (case fault writer of
        None \<Rightarrow> Inr (True, writer\<lparr>out := out writer @ [obj]\<rparr>)
      | Some e \<Rightarrow>
          if e = BrokenPipeError \<or> e = ConnectionResetError then Inr (False, writer)
          else Inl e)"

text \<open>
  \<^verbatim>\<open>
  async def recv_json(reader):
      try:
          line = await reader.readline()
          if not line:
              return None
          return json.loads(line.decode())
      except (BrokenPipeError, ConnectionResetError, asyncio.IncompleteReadError):
          return None
  \<close>
  \<^verbatim>\<open>readline\<close> returns the empty bytes object only at end of file.
\<close>

fun recv_json :: "reader \<Rightarrow> (exn + json option) \<times> reader" where
  "recv_json [] = (Inr None, [])"
| "recv_json (Decodes v # rest) = (Inr (Some v), rest)"
| "recv_json (Raises e # rest) =
     (if e = BrokenPipeError \<or> e = ConnectionResetError \<or> e = IncompleteReadError
      then (Inr None, rest) else (Inl e, rest))"

definition at_eof :: "reader \<Rightarrow> bool" where
  "at_eof reader = (reader = [])"

lemma recv_json_shorter:
  "\<not> at_eof reader \<Longrightarrow> recv_json reader = (r, reader') \<Longrightarrow> length reader' < length reader"
  by (cases reader rule: recv_json.cases) (auto simp: at_eof_def split: if_splits)

text \<open>
  The \<^verbatim>\<open>while\<close> loop of \<^verbatim>\<open>daemon_handle\<close>. The result is the exception that left
  the loop, if any, with the writer and the state as they are at that moment.
  \<^verbatim>\<open>
      while not reader.at_eof():
          data = await recv_json(reader)
          if not data:
              break
          action = data.get("action")
          if action == "get":
              await send_json(writer, {"type": "context", "data": state.context})
          elif action == "set":
              state.context = data.get("data", "")
              await send_json(writer, {"status": "ok"})
          elif action == "clear":
              state.context = ""
              await send_json(writer, {"status": "ok"})
  \<close>
\<close>

function daemon_loop :: "reader \<Rightarrow> Writer \<Rightarrow> State \<Rightarrow> exn option \<times> Writer \<times> State" where
  "daemon_loop reader writer state =
     (if at_eof reader then (None, writer, state)
      else case recv_json reader of
        (Inl e, reader') \<Rightarrow> (Some e, writer, state)
      | (Inr None, reader') \<Rightarrow> (None, writer, state)
      | (Inr (Some data), reader') \<Rightarrow>
          if \<not> truthy data then (None, writer, state)
          else case dict_get data (lit ''action'') JNull of
            Inl e \<Rightarrow> (Some e, writer, state)
          | Inr action \<Rightarrow>
              if action = JStr (lit ''get'') then
                (case send_json writer
                        (JObj [(lit ''type'', JStr (lit ''context'')),
                               (lit ''data'', context state)]) of
                   Inl e \<Rightarrow> (Some e, writer, state)
                 | Inr (_, writer') \<Rightarrow> daemon_loop reader' writer' state)
              else if action = JStr (lit ''set'') then
                (case dict_get data (lit ''data'') (JStr (lit '''')) of
                   Inl e \<Rightarrow> (Some e, writer, state)
                 | Inr v \<Rightarrow>
                     (case send_json writer (JObj [(lit ''status'', JStr (lit ''ok''))]) of
                        Inl e \<Rightarrow> (Some e, writer, state\<lparr>context := v\<rparr>)
                      | Inr (_, writer') \<Rightarrow>
                          daemon_loop reader' writer' (state\<lparr>context := v\<rparr>)))
              else if action = JStr (lit ''clear'') then
                (case send_json writer (JObj [(lit ''status'', JStr (lit ''ok''))]) of
                   Inl e \<Rightarrow> (Some e, writer, state\<lparr>context := JStr (lit '''')\<rparr>)
                 | Inr (_, writer') \<Rightarrow>
                     daemon_loop reader' writer' (state\<lparr>context := JStr (lit '''')\<rparr>))
              else daemon_loop reader' writer state)"
  by pat_completeness auto
termination
  by (relation "measure (\<lambda>(reader, writer, state). length reader)")
     (auto dest: recv_json_shorter [OF _ sym])

declare daemon_loop.simps [simp del]

text \<open>
  \<^verbatim>\<open>daemon_handle\<close>: the loop inside \<^verbatim>\<open>try\<close>; the three transport errors are
  swallowed, any other exception leaves the handler; \<^verbatim>\<open>finally\<close> closes the writer
  on every path.
  \<^verbatim>\<open>
      except (ConnectionResetError, BrokenPipeError, asyncio.IncompleteReadError):
          pass
      finally:
          if not writer.is_closing():
              writer.close()
              await writer.wait_closed()
  \<close>
\<close>

definition daemon_handle :: "reader \<Rightarrow> Writer \<Rightarrow> State \<Rightarrow> exn option \<times> Writer \<times> State" where
  "daemon_handle reader writer state =
     (case daemon_loop reader writer state of
        (raised, writer', state') \<Rightarrow>
          (case raised of
             None \<Rightarrow> None
           | Some e \<Rightarrow>
               if e = ConnectionResetError \<or> e = BrokenPipeError \<or> e = IncompleteReadError
               then None else Some e,
           if \<not> closing writer' then writer'\<lparr>closing := True\<rparr> else writer',
           state'))"

text \<open>
  \<^verbatim>\<open>run_daemon_loop\<close> starts the server with
  \<^verbatim>\<open>lambda r, w: daemon_handle(r, w, state)\<close>: every connection is handled on the one
  \<^verbatim>\<open>state\<close> object, so a handler starts from the state the handler before it left.
  Handlers that overlap in time are outside this model.
\<close>

section \<open>A message as a line of bytes\<close>

text \<open>
  \<^verbatim>\<open>send_json\<close> writes \<^verbatim>\<open>(json.dumps(obj) + "\n").encode()\<close>. With the defaults of
  \<^verbatim>\<open>json.dumps\<close> (\<^verbatim>\<open>ensure_ascii=True\<close>, the separators \<^verbatim>\<open>", "\<close> and \<^verbatim>\<open>": "\<close>) the
  text is ASCII, so each of its characters is one byte.

  \<^verbatim>\<open>sep.join(parts)\<close>:
\<close>

fun join :: "string \<Rightarrow> string list \<Rightarrow> string" where
  "join sep [] = []"
| "join sep [x] = x"
| "join sep (x # y # ys) = x @ sep @ join sep (y # ys)"

text \<open>
  A string in JSON, as \<^verbatim>\<open>py_encode_basestring_ascii\<close> of \<^verbatim>\<open>json.encoder\<close> writes it:
  between double quotes, with the backslash and the double quote escaped, the control
  characters written \<^verbatim>\<open>\b \f \n \r \t\<close> or \<^verbatim>\<open>\u00XX\<close>, the characters from the space
  to the tilde as they are, every other code point below 0x10000 as \<^verbatim>\<open>\uXXXX\<close> with
  four lower-case hexadecimal digits, and a code point from 0x10000 on as the two
  \<^verbatim>\<open>\uXXXX\<close> of its surrogate pair.
\<close>

definition hex_digit :: "nat \<Rightarrow> char" where
  "hex_digit d = ''0123456789abcdef'' ! d"

definition hex4 :: "nat \<Rightarrow> string" where
  "hex4 n = [hex_digit (n div 4096 mod 16), hex_digit (n div 256 mod 16),
             hex_digit (n div 16 mod 16), hex_digit (n mod 16)]"

definition esc_char :: "nat \<Rightarrow> string" where
  "esc_char c =
     (if c = 0x5C then [CHR 0x5C, CHR 0x5C]
      else if c = 0x22 then [CHR 0x5C, CHR 0x22]
      else if c = 0x08 then [CHR 0x5C, CHR ''b'']
      else if c = 0x0C then [CHR 0x5C, CHR ''f'']
      else if c = 0x0A then [CHR 0x5C, CHR ''n'']
      else if c = 0x0D then [CHR 0x5C, CHR ''r'']
      else if c = 0x09 then [CHR 0x5C, CHR ''t'']
      else if 0x20 \<le> c \<and> c \<le> 0x7E then [char_of c]
      else if c < 0x10000 then CHR 0x5C # CHR ''u'' # hex4 c
      else
        let n = c - 0x10000;
            s1 = 0xD800 + (n div 1024) mod 1024;
            s2 = 0xDC00 + n mod 1024
        in CHR 0x5C # CHR ''u'' # hex4 s1 @ CHR 0x5C # CHR ''u'' # hex4 s2)"

definition encode_basestring_ascii :: "pystr \<Rightarrow> string" where
  "encode_basestring_ascii s = CHR 0x22 # concat (map esc_char s) @ [CHR 0x22]"

text \<open>\<^verbatim>\<open>json.dumps(obj)\<close>; the members of a dict are written in the order of the dict.\<close>

fun dumps :: "json \<Rightarrow> string"
  and dumps_items :: "json list \<Rightarrow> string list"
  and dumps_members :: "(pystr \<times> json) list \<Rightarrow> string list" where
  "dumps JNull = ''null''"
| "dumps (JBool b) = (if b then ''true'' else ''false'')"
| "dumps (JInt i) = str_int i"
| "dumps (JFloat r) = r"
| "dumps (JStr s) = encode_basestring_ascii s"
| "dumps (JArr xs) = ''['' @ join '', '' (dumps_items xs) @ '']''"
| "dumps (JObj kvs) = ''{'' @ join '', '' (dumps_members kvs) @ ''}''"
| "dumps_items [] = []"
| "dumps_items (x # xs) = dumps x # dumps_items xs"
| "dumps_members [] = []"
| "dumps_members ((k, v) # kvs) =
     (encode_basestring_ascii k @ '': '' @ dumps v) # dumps_members kvs"

text \<open>
  Both ends read with \<^verbatim>\<open>reader.readline()\<close> on a stream opened without a
  \<^verbatim>\<open>limit\<close> argument (lines 201, 207 and 353), so the limit is asyncio's default,
  \<^verbatim>\<open>_DEFAULT_LIMIT = 2 ** 16\<close>. \<^verbatim>\<open>readline\<close> compares it with the line without its
  newline and raises \<^verbatim>\<open>ValueError\<close> when the line is longer.
\<close>

definition LIMIT :: nat where
  "LIMIT = 65536"

text \<open>
  What \<^verbatim>\<open>json.loads\<close> makes of the text \<^verbatim>\<open>json.dumps\<close> wrote: the same value, except
  that in a string a high surrogate (0xD800 to 0xDBFF) directly followed by a low one
  (0xDC00 to 0xDFFF), both written as \<^verbatim>\<open>\uXXXX\<close>, is read back as the one code point
  they encode. A text of Unicode characters has no surrogate in it and comes back
  unchanged.
\<close>

fun rejoin :: "pystr \<Rightarrow> pystr" where
  "rejoin (h # l # cs) =
     (if 0xD800 \<le> h \<and> h \<le> 0xDBFF \<and> 0xDC00 \<le> l \<and> l \<le> 0xDFFF
      then (0x10000 + (h - 0xD800) * 1024 + (l - 0xDC00)) # rejoin cs
      else h # rejoin (l # cs))"
| "rejoin cs = cs"

fun reloaded :: "json \<Rightarrow> json"
  and reloaded_items :: "json list \<Rightarrow> json list"
  and reloaded_members :: "(pystr \<times> json) list \<Rightarrow> (pystr \<times> json) list" where
  "reloaded (JStr s) = JStr (rejoin s)"
| "reloaded (JArr xs) = JArr (reloaded_items xs)"
| "reloaded (JObj kvs) = JObj (reloaded_members kvs)"
| "reloaded JNull = JNull"
| "reloaded (JBool b) = JBool b"
| "reloaded (JInt i) = JInt i"
| "reloaded (JFloat r) = JFloat r"
| "reloaded_items [] = []"
| "reloaded_items (x # xs) = reloaded x # reloaded_items xs"
| "reloaded_members [] = []"
| "reloaded_members ((k, v) # kvs) = (rejoin k, reloaded v) # reloaded_members kvs"

text \<open>
  The read that the other end of the connection makes of the line \<^verbatim>\<open>send_json\<close> wrote
  for \<open>obj\<close>: \<^verbatim>\<open>ValueError\<close> when the line is longer than the limit, the decoded value
  otherwise.
\<close>

definition received :: "json \<Rightarrow> incoming" where
  "received obj =
     (if LIMIT < length (dumps obj) then Raises ValueError else Decodes (reloaded obj))"

text \<open>A text of Unicode characters: code points that are no surrogates.\<close>

definition unicode_text :: "pystr \<Rightarrow> bool" where
  "unicode_text s = list_all (\<lambda>c. c < 0x110000 \<and> (c < 0xD800 \<or> 0xDFFF < c)) s"

section \<open>The client (PipeLLM.py, lines 122-231)\<close>

text \<open>
  What the client reads on a connection the daemon has closed: the lines the daemon
  wrote, each as the client's \<^verbatim>\<open>readline\<close> and \<^verbatim>\<open>json.loads\<close> get it, then end of
  file.
\<close>

definition client_view :: "Writer \<Rightarrow> reader" where
  "client_view writer = map received (out writer)"

text \<open>
  Lines 230-231, after the client has sent \<^verbatim>\<open>{"action": "get"}\<close>:
  \<^verbatim>\<open>
      msg = await recv_json(reader)
      context = msg.get("data", "") if msg else ""
  \<close>
\<close>

definition client_context :: "reader \<Rightarrow> exn + json" where
  "client_context reader =
     (case recv_json reader of
        (Inl e, _) \<Rightarrow> Inl e
      | (Inr None, _) \<Rightarrow> Inr (JStr (lit ''''))
      | (Inr (Some msg), _) \<Rightarrow>
          if truthy msg then dict_get msg (lit ''data'') (JStr (lit ''''))
          else Inr (JStr (lit '''')))"

definition INFO :: string where
  "INFO = ''PipeLLM by Ben Kantor, Beta 2''"

text \<open>The namespace \<^verbatim>\<open>parse_args\<close> returns.\<close>

record Args =
  short :: bool
  medium :: bool
  long :: bool
  thinking :: bool
  clear :: bool
  "print_context" :: bool
  isolated :: bool
  "help" :: bool
  prompt :: "string list"

text \<open>
  What the client process finds around it: its standard input, the API key of the
  environment, the process id of its parent, and for the k-th call of
  \<^verbatim>\<open>asyncio.open_unix_connection\<close> (counted from 0) whether it connects.
\<close>

record Env =
  stdin_isatty :: bool
  stdin_read :: string
  GEMINI_API_KEY :: "string option"
  getppid :: int
  connect_ok :: "nat \<Rightarrow> bool"

text \<open>
  \<^verbatim>\<open>
  async def read_stdin():
      if sys.stdin.isatty():
          return None
      return await asyncio.get_event_loop().run_in_executor(None, sys.stdin.read)
  \<close>
\<close>

definition read_stdin :: "Env \<Rightarrow> string option" where
  "read_stdin env = (if stdin_isatty env then None else Some (stdin_read env))"

text \<open>
  \<^verbatim>\<open>str.strip()\<close> on the words of the command line. Their characters are code
  points below 256; those listed are the ones Python's \<^verbatim>\<open>str.isspace\<close> accepts in
  that range.
\<close>

definition isspace :: "char \<Rightarrow> bool" where
  "isspace c \<longleftrightarrow> c \<in> set [CHR 0x09, CHR 0x0A, CHR 0x0B, CHR 0x0C, CHR 0x0D,
     CHR 0x1C, CHR 0x1D, CHR 0x1E, CHR 0x1F, CHR 0x20, CHR 0x85, CHR 0xA0]"

definition strip :: "string \<Rightarrow> string" where
  "strip s = rev (dropWhile isspace (rev (dropWhile isspace s)))"

text \<open>\<^verbatim>\<open>not s\<close> for a value that is \<^verbatim>\<open>None\<close> or a string.\<close>

definition falsy_str :: "string option \<Rightarrow> bool" where
  "falsy_str s = (s = None \<or> s = Some [])"

text \<open>
  What a run of the client does to the world, in order: a line printed on standard
  output or on standard error, the usage text, a call of \<^verbatim>\<open>open_unix_connection\<close> with
  its address and whether it connected, \<^verbatim>\<open>writer.close()\<close>, \<^verbatim>\<open>run_daemon(shell_pid)\<close>
  (which starts a daemon process), \<^verbatim>\<open>asyncio.sleep(0.1)\<close>, and the isolated call of the
  generation service.
\<close>

datatype effect =
    Print string
  | PrintErr string
  | PrintUsage
  | Connect string bool
  | CloseWriter
  | RunDaemon int
  | Sleep
  | CallGemini

text \<open>
  \<open>Returned\<close>: \<^verbatim>\<open>run_client\<close> has executed a \<^verbatim>\<open>return\<close>. \<open>Exchange\<close>: it holds an open
  connection and goes on with line 215, where the first \<^verbatim>\<open>send_json\<close> of the client
  stands; every message the client sends is sent after that line.
\<close>

datatype outcome = Returned | Exchange

text \<open>
  \<^verbatim>\<open>
          for _ in range(20):
              await asyncio.sleep(0.1)
              try:
                  reader, writer = await asyncio.open_unix_connection(socket_path)
                  break
              except:
                  continue
          else: ...
  \<close>
  \<open>retry_connect n k\<close> runs the \<open>n\<close> rounds that are left; \<open>k\<close> counts the calls of
  \<^verbatim>\<open>open_unix_connection\<close> made so far. The boolean is False when the loop ran out.
\<close>

fun retry_connect :: "nat \<Rightarrow> nat \<Rightarrow> (nat \<Rightarrow> bool) \<Rightarrow> string \<Rightarrow> effect list \<times> bool" where
  "retry_connect 0 k ok socket_path = ([], False)"
| "retry_connect (Suc n) k ok socket_path =
     (if ok k then ([Sleep, Connect socket_path True], True)
      else case retry_connect n (Suc k) ok socket_path of
        (effects, reached) \<Rightarrow> (Sleep # Connect socket_path False # effects, reached))"

text \<open>
  \<^verbatim>\<open>run_client\<close>, lines 122-213: the help text, the isolated mode (whose prompt
  assembly and HTTP call are one effect here), the probe of lines 188-197, and the
  connection to the daemon with the spawn and the retries of lines 199-213.
\<close>

definition run_client :: "Args \<Rightarrow> Env \<Rightarrow> effect list \<times> outcome" where
  "run_client args env =
     (if help args then ([PrintUsage], Returned)
      else
        let stdin_data = read_stdin env;
            user_prompt = strip (join '' '' (prompt args))
        in
        if isolated args then
          (if falsy_str stdin_data \<and> user_prompt = [] then
             ([PrintErr ''[Error] Isolated mode requires a prompt or stdin.''], Returned)
           else if falsy_str (GEMINI_API_KEY env) then
             ([PrintErr ''[Error] Missing GEMINI_API_KEY''], Returned)
           else ([CallGemini], Returned))
        else
          let shell_pid = getppid env;
              socket_path = get_socket_path shell_pid
          in
          if falsy_str stdin_data \<and> user_prompt = []
             \<and> \<not> print_context args \<and> \<not> clear args then
            (Print (''[Info] '' @ INFO) #
               (if connect_ok env 0
                then [Connect socket_path True, CloseWriter, Print ''[Info] Daemon running'']
                else [Connect socket_path False, Print ''[Info] Daemon not running'']),
             Returned)
          else if connect_ok env 0 then ([Connect socket_path True], Exchange)
          else
            (case retry_connect 20 1 (connect_ok env) socket_path of
               (effects, reached) \<Rightarrow>
                 if reached
                 then (Connect socket_path False # RunDaemon shell_pid # effects, Exchange)
                 else (Connect socket_path False # RunDaemon shell_pid # effects
                         @ [PrintErr ''[Error] Daemon failed to start.''], Returned)))"

text \<open>
  \<^verbatim>\<open>main\<close> runs \<^verbatim>\<open>asyncio.run(run_client())\<close> and nothing after it; no path of the
  client calls \<^verbatim>\<open>sys.exit\<close>. When \<^verbatim>\<open>run_client\<close> returns, the interpreter ends with
  exit status 0. The status of a run that goes on to the exchange is not modelled.
\<close>

definition exit_status :: "outcome \<Rightarrow> int option" where
  "exit_status result = (case result of Returned \<Rightarrow> Some 0 | Exchange \<Rightarrow> None)"

section \<open>The ways the daemon process ends (PipeLLM.py, lines 324-358)\<close>

text \<open>
  A process ends through \<^verbatim>\<open>os._exit(n)\<close> or with the end of the interpreter.
  \<^verbatim>\<open>os._exit\<close> ends it at once and runs none of the handlers registered with
  \<^verbatim>\<open>atexit\<close>; the end of the interpreter runs them, the last registered first.
\<close>

datatype exit_call = Os_exit int | Interpreter_exit

fun handlers_run :: "exit_call \<Rightarrow> 'h list \<Rightarrow> 'h list" where
  "handlers_run (Os_exit status) registered = []"
| "handlers_run Interpreter_exit registered = rev registered"

text \<open>
  What happens to a running daemon: a poll of \<^verbatim>\<open>check_shell_alive\<close> (every 5 seconds;
  True when \<^verbatim>\<open>os.kill(shell_pid, 0)\<close> finds the shell, False when it raises
  \<^verbatim>\<open>ProcessLookupError\<close>), the signal SIGTERM, or the end of \<^verbatim>\<open>serve_forever\<close>, after
  which \<^verbatim>\<open>run_daemon_loop\<close> and \<^verbatim>\<open>main\<close> return.
  \<^verbatim>\<open>
  async def check_shell_alive(shell_pid):
      while True:
          await asyncio.sleep(5)
          try:
              os.kill(shell_pid, 0)
          except ProcessLookupError:
              os._exit(0)
  \<close>
  \<open>daemon_exit\<close> is the call that ends the process, or None when the daemon is still
  running after the events.
\<close>

datatype daemon_event = Poll bool | SIGTERM | ServerStopped

fun daemon_exit :: "daemon_event list \<Rightarrow> exit_call option" where
  "daemon_exit [] = None"
| "daemon_exit (Poll alive # events) =
     (if alive then daemon_exit events else Some (Os_exit 0))"
| "daemon_exit (SIGTERM # events) = Some (Os_exit 0)"
| "daemon_exit (ServerStopped # events) = Some Interpreter_exit"

text \<open>
  \<^verbatim>\<open>
  async def run_daemon_loop(shell_pid):
      if not shell_pid:
          os._exit(1)
      state = State(pid=shell_pid)
      socket_path = get_socket_path(shell_pid)
      def cleanup(): ...                      # unlinks socket_path
      atexit.register(cleanup)
      signal.signal(signal.SIGTERM, lambda *_: os._exit(0))
      ...
      asyncio.create_task(check_shell_alive(shell_pid))
      async with server:
          await server.serve_forever()
  \<close>
  The one handler the daemon registers is \<^verbatim>\<open>cleanup\<close>, for its own address. The result
  is the call that ends the daemon together with the handlers that call runs.
\<close>

datatype handler = Cleanup string

definition run_daemon_loop :: "int \<Rightarrow> daemon_event list \<Rightarrow> (exit_call \<times> handler list) option" where
  "run_daemon_loop shell_pid events =
     (if shell_pid = 0 then Some (Os_exit 1, handlers_run (Os_exit 1) [])
      else
        let socket_path = get_socket_path shell_pid;
            registered = [Cleanup socket_path]
        in case daemon_exit events of
             None \<Rightarrow> None
           | Some c \<Rightarrow> Some (c, handlers_run c registered))"

text \<open>
  Whether the address of the daemon exists, given how the daemon has ended (None: it is
  running, with its server socket bound to the address). An address that starts with
  NUL is a name in the abstract socket namespace: the kernel keeps it while a socket
  bound to it is open and drops it when the process holding that socket ends, whichever
  way the process ends. Any other address is a file, which stays until \<^verbatim>\<open>cleanup\<close>
  unlinks it.
\<close>

definition abstract_address :: "string \<Rightarrow> bool" where
  "abstract_address socket_path = (take 1 socket_path = [CHR 0x00])"

definition address_exists :: "string \<Rightarrow> (exit_call \<times> handler list) option \<Rightarrow> bool" where
  "address_exists socket_path ended =
     (case ended of
        None \<Rightarrow> True
      | Some (c, handlers) \<Rightarrow>
          \<not> abstract_address socket_path \<and> Cleanup socket_path \<notin> set handlers)"

section \<open>The messages of the protocol\<close>

text \<open>
  The requests as the client writes them (lines 216, 219, 229, 240 and 289) and the
  replies as the daemon writes them (lines 308, 311 and 314).
\<close>

definition get_request :: json where
  "get_request = JObj [(lit ''action'', JStr (lit ''get''))]"

definition set_request :: "pystr \<Rightarrow> json" where
  "set_request x = JObj [(lit ''action'', JStr (lit ''set'')), (lit ''data'', JStr x)]"

definition clear_request :: json where
  "clear_request = JObj [(lit ''action'', JStr (lit ''clear''))]"

definition context_reply :: "json \<Rightarrow> json" where
  "context_reply c = JObj [(lit ''type'', JStr (lit ''context'')), (lit ''data'', c)]"

definition ok_reply :: json where
  "ok_reply = JObj [(lit ''status'', JStr (lit ''ok''))]"

text \<open>The names of the fields of an object.\<close>

fun keys :: "json \<Rightarrow> pystr list" where
  "keys (JObj kvs) = map fst kvs"
| "keys _ = []"

text \<open>A connection just accepted, and a daemon just started for a shell.\<close>

definition new_writer :: Writer where
  "new_writer = \<lparr>out = [], closing = False, fault = None\<rparr>"

definition new_state :: "int \<Rightarrow> State" where
  "new_state shell_pid = \<lparr>pid = shell_pid, context = JStr (lit '''')\<rparr>"

text \<open>
  An invocation from a terminal with the given words as prompt and no option, as
  \<^verbatim>\<open>parse_args\<close> returns it, and the surroundings of a client started from the shell
  \<open>shell_pid\<close> with a terminal as standard input and no API key.
\<close>

definition plain_args :: "string list \<Rightarrow> Args" where
  "plain_args ws =
     \<lparr>short = False, medium = False, long = False, thinking = False, clear = False,
      print_context = False, isolated = False, help = False, prompt = ws\<rparr>"

definition terminal_env :: "int \<Rightarrow> (nat \<Rightarrow> bool) \<Rightarrow> Env" where
  "terminal_env shell_pid ok =
     \<lparr>stdin_isatty = True, stdin_read = [], GEMINI_API_KEY = None, getppid = shell_pid,
      connect_ok = ok\<rparr>"

text \<open>No daemon can be reached, at any attempt; and a daemon that is there.\<close>

definition unreachable :: "nat \<Rightarrow> bool" where
  "unreachable k = False"

definition reachable :: "nat \<Rightarrow> bool" where
  "reachable k = True"
section \<open>Literals\<close>

lemma lit_eq_iff [simp]: "lit a = lit b \<longleftrightarrow> a = b"
  unfolding lit_def by (rule inj_map_eq_map) (simp add: inj_on_def)

lemma lit_Nil: "lit [] = []"
  by (simp add: lit_def)

lemma lit_below_256: "c \<in> set (lit s) \<Longrightarrow> c < 256"
proof -
  assume "c \<in> set (lit s)"
  then obtain ch :: char where "c = of_char ch"
    by (auto simp: lit_def)
  then show ?thesis
    by (simp add: of_char_def)
qed

section \<open>One step of the handler\<close>

lemma daemon_loop_eof: "daemon_loop [] writer state = (None, writer, state)"
  by (subst daemon_loop.simps) (simp add: at_eof_def)

lemma daemon_loop_Raises:
  "daemon_loop (Raises e # rest) writer state =
     (if e = BrokenPipeError \<or> e = ConnectionResetError \<or> e = IncompleteReadError
      then None else Some e, writer, state)"
  by (subst daemon_loop.simps) (simp add: at_eof_def)


lemma daemon_loop_not_dict:
  assumes "truthy data" and "dict_get data (lit ''action'') JNull = Inl e"
  shows "daemon_loop (Decodes data # rest) writer state = (Some e, writer, state)"
  using assms by (subst daemon_loop.simps) (simp add: at_eof_def)

lemma action_of_dict:
  "map_of req (lit ''action'') = Some a \<Longrightarrow>
     truthy (JObj req) \<and> dict_get (JObj req) (lit ''action'') JNull = Inr a"
  by (cases req) auto

lemma daemon_loop_get:
  assumes "map_of req (lit ''action'') = Some (JStr (lit ''get''))" and "fault writer = None"
  shows "daemon_loop (Decodes (JObj req) # rest) writer state =
         daemon_loop rest (writer\<lparr>out := out writer @ [context_reply (context state)]\<rparr>) state"
  using action_of_dict [OF assms(1)] assms(2)
  by (subst daemon_loop.simps) (simp add: at_eof_def send_json_def context_reply_def)

lemma daemon_loop_set:
  assumes "map_of req (lit ''action'') = Some (JStr (lit ''set''))" and "fault writer = None"
  shows "daemon_loop (Decodes (JObj req) # rest) writer state =
         daemon_loop rest (writer\<lparr>out := out writer @ [ok_reply]\<rparr>)
           (state\<lparr>context := (case map_of req (lit ''data'') of None \<Rightarrow> JStr (lit '''') | Some v \<Rightarrow> v)\<rparr>)"
  using action_of_dict [OF assms(1)] assms(2)
  by (subst daemon_loop.simps) (simp add: at_eof_def send_json_def ok_reply_def)

lemma daemon_loop_clear:
  assumes "map_of req (lit ''action'') = Some (JStr (lit ''clear''))" and "fault writer = None"
  shows "daemon_loop (Decodes (JObj req) # rest) writer state =
         daemon_loop rest (writer\<lparr>out := out writer @ [ok_reply]\<rparr>)
           (state\<lparr>context := JStr (lit '''')\<rparr>)"
  using action_of_dict [OF assms(1)] assms(2)
  by (subst daemon_loop.simps) (simp add: at_eof_def send_json_def ok_reply_def)


lemma daemon_handle_cong:
  "daemon_loop r1 w1 s1 = daemon_loop r2 w2 s2 \<Longrightarrow> daemon_handle r1 w1 s1 = daemon_handle r2 w2 s2"
  by (simp add: daemon_handle_def)

lemma close_writer: "(if \<not> closing w then w\<lparr>closing := True\<rparr> else w) = w\<lparr>closing := True\<rparr>"
  by (cases w) auto

lemma daemon_handle_eof: "daemon_handle [] writer state = (None, writer\<lparr>closing := True\<rparr>, state)"
  by (simp add: daemon_handle_def daemon_loop_eof close_writer)

lemma handle_get:
  assumes "map_of req (lit ''action'') = Some (JStr (lit ''get''))" and "fault writer = None"
  shows "daemon_handle (Decodes (JObj req) # rest) writer state =
         daemon_handle rest (writer\<lparr>out := out writer @ [context_reply (context state)]\<rparr>) state"
  by (rule daemon_handle_cong) (rule daemon_loop_get [OF assms])

lemma handle_set:
  assumes "map_of req (lit ''action'') = Some (JStr (lit ''set''))" and "fault writer = None"
  shows "daemon_handle (Decodes (JObj req) # rest) writer state =
         daemon_handle rest (writer\<lparr>out := out writer @ [ok_reply]\<rparr>)
           (state\<lparr>context := (case map_of req (lit ''data'') of None \<Rightarrow> JStr (lit '''') | Some v \<Rightarrow> v)\<rparr>)"
  by (rule daemon_handle_cong) (rule daemon_loop_set [OF assms])

lemma handle_clear:
  assumes "map_of req (lit ''action'') = Some (JStr (lit ''clear''))" and "fault writer = None"
  shows "daemon_handle (Decodes (JObj req) # rest) writer state =
         daemon_handle rest (writer\<lparr>out := out writer @ [ok_reply]\<rparr>)
           (state\<lparr>context := JStr (lit '''')\<rparr>)"
  by (rule daemon_handle_cong) (rule daemon_loop_clear [OF assms])


lemma handle_set_request:
  "fault writer = None \<Longrightarrow>
   daemon_handle (Decodes (set_request x) # rest) writer state =
   daemon_handle rest (writer\<lparr>out := out writer @ [ok_reply]\<rparr>) (state\<lparr>context := JStr x\<rparr>)"
  unfolding set_request_def by (subst handle_set) simp_all

lemma handle_get_request:
  "fault writer = None \<Longrightarrow>
   daemon_handle (Decodes get_request # rest) writer state =
   daemon_handle rest (writer\<lparr>out := out writer @ [context_reply (context state)]\<rparr>) state"
  unfolding get_request_def by (subst handle_get) simp_all


section \<open>The replies of the daemon\<close>

text \<open>
  Claim C1, as the code has it. A request whose action is \<^verbatim>\<open>get\<close>, on a connection that
  can be written to, is answered with one object of two fields: \<^verbatim>\<open>"type"\<close> with the
  value \<^verbatim>\<open>"context"\<close>, and \<^verbatim>\<open>"data"\<close> with the current context. Nothing else is written
  and the state is not changed; the handler then goes on with the next line, and closes
  the connection when there is none.
\<close>

theorem daemon_get_reply:
  assumes "map_of req (lit ''action'') = Some (JStr (lit ''get''))" and "fault writer = None"
  shows "daemon_handle (Decodes (JObj req) # rest) writer state =
           daemon_handle rest
             (writer\<lparr>out := out writer @
                [JObj [(lit ''type'', JStr (lit ''context'')), (lit ''data'', context state)]]\<rparr>) state
         \<and> daemon_handle [Decodes (JObj req)] writer state =
           (None,
            writer\<lparr>out := out writer @
                [JObj [(lit ''type'', JStr (lit ''context'')), (lit ''data'', context state)]],
              closing := True\<rparr>,
            state)"
  using handle_get [OF assms]
  by (simp add: context_reply_def daemon_handle_eof)

theorem daemon_get_reply_witness:
  "map_of [(lit ''action'', JStr (lit ''get''))] (lit ''action'') = Some (JStr (lit ''get''))
   \<and> fault new_writer = None
   \<and> daemon_handle [Decodes get_request] new_writer \<lparr>pid = 4242, context = JStr (lit ''hello'')\<rparr> =
       (None,
        \<lparr>out = [JObj [(lit ''type'', JStr (lit ''context'')), (lit ''data'', JStr (lit ''hello''))]],
         closing = True, fault = None\<rparr>,
        \<lparr>pid = 4242, context = JStr (lit ''hello'')\<rparr>)"
proof -
  have a: "map_of [(lit ''action'', JStr (lit ''get''))] (lit ''action'') = Some (JStr (lit ''get''))"
    by simp
  have b: "fault new_writer = None"
    by (simp add: new_writer_def)
  from daemon_get_reply [OF a b, THEN conjunct2, of "\<lparr>pid = 4242, context = JStr (lit ''hello'')\<rparr>"]
  show ?thesis
    by (simp add: get_request_def new_writer_def)
qed

text \<open>
  The end-to-end scenario of the specification: after \<^verbatim>\<open>{"action":"set","data":"hello"}\<close>
  the reply to \<^verbatim>\<open>{"action":"get"}\<close> is not the object \<^verbatim>\<open>{"data":"hello"}\<close>: it has a
  field \<^verbatim>\<open>type\<close> as well.
\<close>

theorem daemon_get_reply_counterexample:
  "out (fst (snd (daemon_handle [Decodes (set_request (lit ''hello'')), Decodes get_request]
                    new_writer (new_state 4242))))
     \<noteq> [JObj [(lit ''status'', JStr (lit ''ok''))], JObj [(lit ''data'', JStr (lit ''hello''))]]
   \<and> keys (last (out (fst (snd (daemon_handle
                    [Decodes (set_request (lit ''hello'')), Decodes get_request]
                    new_writer (new_state 4242))))))
     = [lit ''type'', lit ''data'']"
  by (simp add: handle_set_request handle_get_request daemon_handle_eof new_writer_def
      new_state_def ok_reply_def context_reply_def)

section \<open>The address of a session\<close>

lemma str_nat_small: "n < 10 \<Longrightarrow> str_nat n = [digit_char n]"
  by (subst str_nat.simps) simp

lemma str_nat_big: "\<not> n < 10 \<Longrightarrow> str_nat n = str_nat (n div 10) @ [digit_char (n mod 10)]"
  by (subst str_nat.simps) simp

lemma digits_distinct: "distinct ''0123456789''"
  by simp

lemma digit_char_inj:
  assumes "a < 10" and "b < 10" and "digit_char a = digit_char b"
  shows "a = b"
  using assms digits_distinct unfolding digit_char_def
  by (subst (asm) nth_eq_iff_index_eq) simp_all

lemma digit_char_not_minus:
  assumes "d < 10"
  shows "digit_char d \<noteq> CHR ''-''"
proof -
  have "digit_char d \<in> set ''0123456789''"
    unfolding digit_char_def using assms by (intro nth_mem) simp
  then show ?thesis by auto
qed

lemma str_nat_not_Nil: "str_nat n \<noteq> []"
  by (cases "n < 10") (simp_all add: str_nat_small str_nat_big)

lemma str_nat_no_minus: "CHR ''-'' \<notin> set (str_nat n)"
proof (induction n rule: str_nat.induct)
  case (1 n)
  show ?case
  proof (cases "n < 10")
    case True
    then show ?thesis
      using digit_char_not_minus [of n] by (simp add: str_nat_small)
  next
    case False
    have "n mod 10 < 10" by simp
    then have "digit_char (n mod 10) \<noteq> CHR ''-''"
      by (rule digit_char_not_minus)
    with False "1.IH" show ?thesis
      by (simp add: str_nat_big)
  qed
qed

lemma str_nat_inj: "str_nat a = str_nat b \<Longrightarrow> a = b"
proof (induction a arbitrary: b rule: str_nat.induct)
  case (1 a)
  show ?case
  proof (cases "a < 10")
    case small_a: True
    show ?thesis
    proof (cases "b < 10")
      case True
      with small_a "1.prems" show ?thesis
        using digit_char_inj [of a b] by (simp add: str_nat_small)
    next
      case False
      with small_a "1.prems" have "str_nat (b div 10) = []"
        by (simp add: str_nat_small str_nat_big)
      then show ?thesis
        by (simp add: str_nat_not_Nil)
    qed
  next
    case big_a: False
    show ?thesis
    proof (cases "b < 10")
      case True
      with big_a "1.prems" have "str_nat (a div 10) = []"
        by (simp add: str_nat_small str_nat_big)
      then show ?thesis
        by (simp add: str_nat_not_Nil)
    next
      case False
      with big_a "1.prems"
      have hi: "str_nat (a div 10) = str_nat (b div 10)"
        and lo: "digit_char (a mod 10) = digit_char (b mod 10)"
        by (simp_all add: str_nat_big)
      from hi have "a div 10 = b div 10"
        using "1.IH" big_a by blast
      moreover from lo have "a mod 10 = b mod 10"
        by (intro digit_char_inj) simp_all
      ultimately show ?thesis
        by (metis div_mult_mod_eq)
    qed
  qed
qed

lemma hd_str_nat_not_minus: "hd (str_nat n) \<noteq> CHR ''-''"
  by (metis str_nat_no_minus str_nat_not_Nil hd_in_set)

lemma str_int_inj: "str_int i = str_int j \<Longrightarrow> i = j"
proof -
  assume eq: "str_int i = str_int j"
  show "i = j"
  proof (cases "i < 0")
    case neg_i: True
    show ?thesis
    proof (cases "j < 0")
      case True
      with neg_i eq have "str_nat (nat (- i)) = str_nat (nat (- j))"
        by (simp add: str_int_def)
      then have "nat (- i) = nat (- j)"
        by (rule str_nat_inj)
      with neg_i True show ?thesis by simp
    next
      case False
      with neg_i eq have "CHR ''-'' # str_nat (nat (- i)) = str_nat (nat j)"
        by (simp add: str_int_def)
      then have "hd (str_nat (nat j)) = CHR ''-''"
        by (metis list.sel(1))
      with hd_str_nat_not_minus show ?thesis by blast
    qed
  next
    case pos_i: False
    show ?thesis
    proof (cases "j < 0")
      case True
      with pos_i eq have "str_nat (nat i) = CHR ''-'' # str_nat (nat (- j))"
        by (simp add: str_int_def)
      then have "hd (str_nat (nat i)) = CHR ''-''"
        by simp
      with hd_str_nat_not_minus show ?thesis by blast
    next
      case False
      with pos_i eq have "str_nat (nat i) = str_nat (nat j)"
        by (simp add: str_int_def)
      then have "nat i = nat j"
        by (rule str_nat_inj)
      with pos_i False show ?thesis by simp
    qed
  qed
qed

lemma str_nat_4242: "str_nat 4242 = ''4242''"
  by (simp add: str_nat.simps [of 4242] str_nat.simps [of 424] str_nat.simps [of 42]
      str_nat.simps [of 4] digit_char_def)

lemma get_socket_path_4242: "get_socket_path 4242 = CHR 0x00 # ''llm-daemon-4242''"
  by (simp add: get_socket_path_def SOCKET_PREFIX_def str_int_def str_nat_4242)

text \<open>
  Claim C7. The address is a function of the shell's process id and of nothing else,
  and two different process ids never have the same address.
\<close>

theorem get_socket_path_injective:
  "p1 \<noteq> p2 \<Longrightarrow> get_socket_path p1 \<noteq> get_socket_path p2"
  by (auto simp: get_socket_path_def dest: str_int_inj)

theorem get_socket_path_injective_witness:
  "(4242 :: int) \<noteq> 4243 \<and> get_socket_path 4242 \<noteq> get_socket_path 4243
    \<and> get_socket_path 4242 = CHR 0x00 # ''llm-daemon-4242''"
proof -
  have ne: "(4242 :: int) \<noteq> 4243" by simp
  from get_socket_path_injective [OF ne] ne get_socket_path_4242 show ?thesis by simp
qed

section \<open>The lines of the protocol\<close>

lemma esc_char_a: "esc_char 97 = ''a''"
  by (simp add: esc_char_def char_of_def bit_0)

lemma escape_replicate_a: "concat (map esc_char (replicate n 97)) = replicate n (CHR ''a'')"
  by (induction n) (simp_all add: esc_char_a)

lemma encode_action: "encode_basestring_ascii (lit ''action'') = CHR 0x22 # ''action'' @ [CHR 0x22]"
  by (simp add: encode_basestring_ascii_def lit_def esc_char_def char_of_def bit_0)

lemma encode_data: "encode_basestring_ascii (lit ''data'') = CHR 0x22 # ''data'' @ [CHR 0x22]"
  by (simp add: encode_basestring_ascii_def lit_def esc_char_def char_of_def bit_0)

lemma encode_set: "encode_basestring_ascii (lit ''set'') = CHR 0x22 # ''set'' @ [CHR 0x22]"
  by (simp add: encode_basestring_ascii_def lit_def esc_char_def char_of_def bit_0)

lemma encode_get: "encode_basestring_ascii (lit ''get'') = CHR 0x22 # ''get'' @ [CHR 0x22]"
  by (simp add: encode_basestring_ascii_def lit_def esc_char_def char_of_def bit_0)

lemma encode_type: "encode_basestring_ascii (lit ''type'') = CHR 0x22 # ''type'' @ [CHR 0x22]"
  by (simp add: encode_basestring_ascii_def lit_def esc_char_def char_of_def bit_0)

lemma encode_context:
  "encode_basestring_ascii (lit ''context'') = CHR 0x22 # ''context'' @ [CHR 0x22]"
  by (simp add: encode_basestring_ascii_def lit_def esc_char_def char_of_def bit_0)

text \<open>
  The line of a \<^verbatim>\<open>set\<close> request is \<^verbatim>\<open>{"action": "set", "data": "..."}\<close>, the line of a
  \<^verbatim>\<open>get\<close> request is \<^verbatim>\<open>{"action": "get"}\<close>, and the line of the reply to it is
  \<^verbatim>\<open>{"type": "context", "data": "..."}\<close>, with the escaped text between the last two
  quotes.
\<close>

lemma dumps_set_request:
  "dumps (set_request x) =
     ''{'' @ [CHR 0x22] @ ''action'' @ [CHR 0x22] @ '': '' @ [CHR 0x22] @ ''set'' @ [CHR 0x22]
       @ '', '' @ [CHR 0x22] @ ''data'' @ [CHR 0x22] @ '': ''
       @ [CHR 0x22] @ concat (map esc_char x) @ [CHR 0x22] @ ''}''"
  by (simp add: set_request_def encode_action encode_data encode_set)
     (simp add: encode_basestring_ascii_def)

lemma dumps_get_request:
  "dumps get_request =
     ''{'' @ [CHR 0x22] @ ''action'' @ [CHR 0x22] @ '': '' @ [CHR 0x22] @ ''get'' @ [CHR 0x22]
       @ ''}''"
  by (simp add: get_request_def encode_action encode_get)

lemma dumps_context_reply:
  "dumps (context_reply (JStr x)) =
     ''{'' @ [CHR 0x22] @ ''type'' @ [CHR 0x22] @ '': '' @ [CHR 0x22] @ ''context'' @ [CHR 0x22]
       @ '', '' @ [CHR 0x22] @ ''data'' @ [CHR 0x22] @ '': ''
       @ [CHR 0x22] @ concat (map esc_char x) @ [CHR 0x22] @ ''}''"
  by (simp add: context_reply_def encode_type encode_data encode_context)
     (simp add: encode_basestring_ascii_def)

lemma length_dumps_set_request:
  "length (dumps (set_request x)) = 29 + length (concat (map esc_char x))"
  by (simp add: dumps_set_request)

lemma length_dumps_context_reply:
  "length (dumps (context_reply (JStr x))) = 31 + length (concat (map esc_char x))"
  by (simp add: dumps_context_reply)

lemma length_dumps_get_request: "length (dumps get_request) = 17"
  by (simp add: dumps_get_request)

text \<open>No escaped text has a line break in it: a message is one line, whatever its text.\<close>

lemma hex_digit_not_newline: "d < 16 \<Longrightarrow> CHR 0x0A \<noteq> hex_digit d"
proof -
  assume "d < 16"
  then have "hex_digit d \<in> set ''0123456789abcdef''"
    unfolding hex_digit_def by (intro nth_mem) simp
  then show ?thesis by auto
qed

lemma hex4_no_newline: "CHR 0x0A \<notin> set (hex4 n)"
  by (simp add: hex4_def hex_digit_not_newline)

lemma char_of_not_newline:
  assumes "0x20 \<le> c" and "c \<le> (0x7E :: nat)"
  shows "CHR 0x0A \<noteq> char_of c"
proof
  assume "CHR 0x0A = char_of c"
  then have "of_char (char_of c) = (of_char (CHR 0x0A) :: nat)"
    by simp
  then have "c mod 256 = 10"
    by simp
  with assms show False by simp
qed

lemma esc_char_no_newline: "CHR 0x0A \<notin> set (esc_char c)"
  by (auto simp: esc_char_def Let_def hex4_no_newline char_of_not_newline)

lemma escape_no_newline: "CHR 0x0A \<notin> set (concat (map esc_char x))"
  by (auto simp: esc_char_no_newline)

text \<open>What is read back of a line.\<close>

lemma rejoin_id:
  "list_all (\<lambda>c. c < 0xD800 \<or> 0xDFFF < c) s \<Longrightarrow> rejoin s = s"
  by (induction s rule: rejoin.induct) auto

lemma rejoin_lit [simp]: "rejoin (lit s) = lit s"
proof (rule rejoin_id)
  show "list_all (\<lambda>c. c < 0xD800 \<or> 0xDFFF < c) (lit s)"
    unfolding list_all_iff using lit_below_256 by fastforce
qed

lemma rejoin_text: "unicode_text s \<Longrightarrow> rejoin s = s"
  by (rule rejoin_id) (auto simp: unicode_text_def list_all_iff)

text \<open>
  A \<^verbatim>\<open>str\<close> that holds the two halves of a surrogate pair as two code points is no
  text of Unicode characters, and it is not read back as it was written.
\<close>

lemma surrogate_halves_joined:
  "received (set_request [0xD83D, 0xDE00]) = Decodes (set_request [0x1F600])"
proof -
  have "concat (map esc_char [0xD83D, 0xDE00]) =
      [CHR 0x5C] @ ''ud83d'' @ [CHR 0x5C] @ ''ude00''"
    by (simp add: esc_char_def hex4_def hex_digit_def)
  then have "length (dumps (set_request [0xD83D, 0xDE00])) = 41"
    unfolding length_dumps_set_request by simp
  then show ?thesis
    by (simp add: received_def LIMIT_def set_request_def)
qed

lemma received_too_long: "LIMIT < length (dumps obj) \<Longrightarrow> received obj = Raises ValueError"
  by (simp add: received_def)

lemma received_set_request:
  "unicode_text x \<Longrightarrow> length (dumps (set_request x)) \<le> LIMIT \<Longrightarrow>
   received (set_request x) = Decodes (set_request x)"
  by (simp add: received_def set_request_def rejoin_text)

lemma received_context_reply:
  "unicode_text x \<Longrightarrow> length (dumps (context_reply (JStr x))) \<le> LIMIT \<Longrightarrow>
   received (context_reply (JStr x)) = Decodes (context_reply (JStr x))"
  by (simp add: received_def context_reply_def rejoin_text)

lemma received_get_request: "received get_request = Decodes get_request"
  by (simp add: received_def length_dumps_get_request LIMIT_def) (simp add: get_request_def)
section \<open>Writing the context and reading it back\<close>

lemma client_context_reply: "client_context [Decodes (context_reply c)] = Inr c"
  by (simp add: client_context_def context_reply_def)

lemma handle_too_long:
  "daemon_handle (Raises ValueError # rest) writer state =
   (Some ValueError, writer\<lparr>closing := True\<rparr>, state)"
  by (simp add: daemon_handle_def daemon_loop_Raises close_writer)

lemma set_line_shorter:
  "length (dumps (context_reply (JStr x))) \<le> LIMIT \<Longrightarrow> length (dumps (set_request x)) \<le> LIMIT"
  by (simp add: length_dumps_set_request length_dumps_context_reply)

text \<open>
  Claim C8, as the code has it. Let \<open>x\<close> be a text of Unicode characters (the empty
  one, one with line breaks) whose lines fit the limit of the stream readers: the line
  of the reply to \<^verbatim>\<open>get\<close>, which is 31 bytes and the escaped text, is at most 65536
  bytes long, and the line of the \<^verbatim>\<open>set\<close> request is two bytes shorter. Then a
  \<^verbatim>\<open>set\<close> request carrying \<open>x\<close> followed by a \<^verbatim>\<open>get\<close> request returns \<open>x\<close>: on one
  connection the two replies are \<^verbatim>\<open>{"status": "ok"}\<close> and an object whose \<^verbatim>\<open>data\<close> is
  \<open>x\<close>, and the context is \<open>x\<close> afterwards; the same holds when the \<^verbatim>\<open>get\<close> comes on
  a later connection, as it does when two invocations of the client follow each other;
  and the client, reading the line of that reply, takes exactly \<open>x\<close> out of it. Neither
  line has a line break in it, whatever \<open>x\<close> contains.
\<close>

theorem set_get_round_trip:
  assumes "unicode_text x"
    and "length (dumps (context_reply (JStr x))) \<le> LIMIT"
    and "fault w1 = None" and "fault w2 = None"
  shows "daemon_handle (received (set_request x) # received get_request # rest) w1 state =
           daemon_handle rest
             (w1\<lparr>out := out w1 @ [ok_reply, context_reply (JStr x)]\<rparr>)
             (state\<lparr>context := JStr x\<rparr>)
         \<and> daemon_handle [received (set_request x)] w1 state =
             (None, w1\<lparr>out := out w1 @ [ok_reply], closing := True\<rparr>,
              state\<lparr>context := JStr x\<rparr>)
         \<and> daemon_handle [received get_request] w2 (state\<lparr>context := JStr x\<rparr>) =
             (None, w2\<lparr>out := out w2 @ [context_reply (JStr x)], closing := True\<rparr>,
              state\<lparr>context := JStr x\<rparr>)
         \<and> client_context (client_view (fst (snd
               (daemon_handle [received get_request] new_writer (state\<lparr>context := JStr x\<rparr>)))))
             = Inr (JStr x)
         \<and> CHR 0x0A \<notin> set (dumps (set_request x))
         \<and> CHR 0x0A \<notin> set (dumps (context_reply (JStr x)))"
proof -
  have set_line: "received (set_request x) = Decodes (set_request x)"
    using assms(1,2) by (intro received_set_request set_line_shorter)
  have reply_line: "received (context_reply (JStr x)) = Decodes (context_reply (JStr x))"
    using assms(1,2) by (rule received_context_reply)
  have one: "daemon_handle (received (set_request x) # received get_request # rest) w1 state =
           daemon_handle rest
             (w1\<lparr>out := out w1 @ [ok_reply, context_reply (JStr x)]\<rparr>)
             (state\<lparr>context := JStr x\<rparr>)"
    using assms(3)
    by (simp add: set_line received_get_request handle_set_request handle_get_request)
  have first: "daemon_handle [received (set_request x)] w1 state =
             (None, w1\<lparr>out := out w1 @ [ok_reply], closing := True\<rparr>,
              state\<lparr>context := JStr x\<rparr>)"
    using assms(3) by (simp add: set_line handle_set_request daemon_handle_eof)
  have second: "daemon_handle [received get_request] w (state\<lparr>context := JStr x\<rparr>) =
             (None, w\<lparr>out := out w @ [context_reply (JStr x)], closing := True\<rparr>,
              state\<lparr>context := JStr x\<rparr>)" if "fault w = None" for w
    using that by (simp add: received_get_request handle_get_request daemon_handle_eof)
  have client: "client_context (client_view (fst (snd
               (daemon_handle [received get_request] new_writer (state\<lparr>context := JStr x\<rparr>)))))
             = Inr (JStr x)"
    by (simp add: second new_writer_def client_view_def reply_line client_context_reply)
  have no_break: "CHR 0x0A \<notin> set (dumps (set_request x))"
    "CHR 0x0A \<notin> set (dumps (context_reply (JStr x)))"
    using escape_no_newline [of x]
    by (simp_all add: dumps_set_request dumps_context_reply)
  from one first second [OF assms(4)] client no_break show ?thesis
    by blast
qed

text \<open>
  The text of the witness is \<^verbatim>\<open>a\<close>, a line break, \<^verbatim>\<open>b\<close>, the character U+00E9 and the
  character U+1F600; the line of its \<^verbatim>\<open>set\<close> request is
  \<^verbatim>\<open>{"action": "set", "data": "a\nb\u00e9\ud83d\ude00"}\<close>.
\<close>

theorem set_get_round_trip_witness:
  "unicode_text [97, 10, 98, 233, 128512]
   \<and> length (dumps (context_reply (JStr [97, 10, 98, 233, 128512]))) = 53
   \<and> dumps (set_request [97, 10, 98, 233, 128512]) =
       ''{'' @ [CHR 0x22] @ ''action'' @ [CHR 0x22] @ '': '' @ [CHR 0x22] @ ''set'' @ [CHR 0x22]
         @ '', '' @ [CHR 0x22] @ ''data'' @ [CHR 0x22] @ '': '' @ [CHR 0x22]
         @ ''a'' @ [CHR 0x5C] @ ''nb'' @ [CHR 0x5C] @ ''u00e9''
         @ [CHR 0x5C] @ ''ud83d'' @ [CHR 0x5C] @ ''ude00'' @ [CHR 0x22] @ ''}''
   \<and> daemon_handle
         [received (set_request [97, 10, 98, 233, 128512]), received get_request]
         new_writer (new_state 4242) =
       (None,
        \<lparr>out = [ok_reply, context_reply (JStr [97, 10, 98, 233, 128512])],
         closing = True, fault = None\<rparr>,
        \<lparr>pid = 4242, context = JStr [97, 10, 98, 233, 128512]\<rparr>)
   \<and> daemon_handle [received (set_request []), received get_request]
         new_writer (new_state 4242) =
       (None, \<lparr>out = [ok_reply, context_reply (JStr [])], closing = True, fault = None\<rparr>,
        \<lparr>pid = 4242, context = JStr []\<rparr>)"
proof -
  have f: "fault new_writer = None"
    by (simp add: new_writer_def)
  have escaped: "concat (map esc_char [97, 10, 98, 233, 128512]) =
      ''a'' @ [CHR 0x5C] @ ''nb'' @ [CHR 0x5C] @ ''u00e9''
         @ [CHR 0x5C] @ ''ud83d'' @ [CHR 0x5C] @ ''ude00''"
    by (simp add: esc_char_def char_of_def bit_0 hex4_def hex_digit_def Let_def)
  have t: "unicode_text [97, 10, 98, 233, 128512]" and t0: "unicode_text []"
    by (simp_all add: unicode_text_def)
  have n: "length (dumps (context_reply (JStr [97, 10, 98, 233, 128512]))) = 53"
    unfolding length_dumps_context_reply escaped by simp
  have n0: "length (dumps (context_reply (JStr []))) \<le> LIMIT"
    by (simp add: length_dumps_context_reply LIMIT_def)
  have fits: "length (dumps (context_reply (JStr [97, 10, 98, 233, 128512]))) \<le> LIMIT"
    by (simp add: n LIMIT_def)
  note multi = set_get_round_trip [OF t fits f f, where rest = "[]"
      and state = "new_state 4242", THEN conjunct1]
  note empty = set_get_round_trip [OF t0 n0 f f, where rest = "[]"
      and state = "new_state 4242", THEN conjunct1]
  have line: "dumps (set_request [97, 10, 98, 233, 128512]) =
       ''{'' @ [CHR 0x22] @ ''action'' @ [CHR 0x22] @ '': '' @ [CHR 0x22] @ ''set'' @ [CHR 0x22]
         @ '', '' @ [CHR 0x22] @ ''data'' @ [CHR 0x22] @ '': '' @ [CHR 0x22]
         @ ''a'' @ [CHR 0x5C] @ ''nb'' @ [CHR 0x5C] @ ''u00e9''
         @ [CHR 0x5C] @ ''ud83d'' @ [CHR 0x5C] @ ''ude00'' @ [CHR 0x22] @ ''}''"
    unfolding dumps_set_request escaped by simp
  from t n line multi empty show ?thesis
    by (simp add: new_writer_def new_state_def daemon_handle_eof)
qed

text \<open>
  A text of 70000 letters \<^verbatim>\<open>a\<close>: the line of its \<^verbatim>\<open>set\<close> request is 70029 bytes
  long, the daemon's \<^verbatim>\<open>readline\<close> raises \<^verbatim>\<open>ValueError\<close>, the handler ends without
  having set or answered anything, and the context is still empty: a \<^verbatim>\<open>get\<close> on the
  next connection returns the empty text.
\<close>

theorem set_get_round_trip_counterexample:
  "unicode_text (replicate 70000 97)
   \<and> length (dumps (set_request (replicate 70000 97))) = 70029
   \<and> daemon_handle [received (set_request (replicate 70000 97)), received get_request]
       new_writer (new_state 4242) =
     (Some ValueError, \<lparr>out = [], closing = True, fault = None\<rparr>,
      \<lparr>pid = 4242, context = JStr []\<rparr>)
   \<and> daemon_handle [received get_request] new_writer \<lparr>pid = 4242, context = JStr []\<rparr> =
     (None, \<lparr>out = [context_reply (JStr [])], closing = True, fault = None\<rparr>,
      \<lparr>pid = 4242, context = JStr []\<rparr>)"
proof -
  have t: "unicode_text (replicate 70000 97)"
    by (simp add: unicode_text_def list_all_iff)
  have n: "length (dumps (set_request (replicate 70000 97))) = 70029"
    unfolding length_dumps_set_request escape_replicate_a by simp
  then have "received (set_request (replicate 70000 97)) = Raises ValueError"
    by (intro received_too_long) (simp add: LIMIT_def)
  then have lost: "daemon_handle [received (set_request (replicate 70000 97)), received get_request]
       new_writer (new_state 4242) =
     (Some ValueError, \<lparr>out = [], closing = True, fault = None\<rparr>,
      \<lparr>pid = 4242, context = JStr []\<rparr>)"
    by (simp add: handle_too_long new_writer_def new_state_def lit_Nil)
  have after: "daemon_handle [received get_request] new_writer \<lparr>pid = 4242, context = JStr []\<rparr> =
     (None, \<lparr>out = [context_reply (JStr [])], closing = True, fault = None\<rparr>,
      \<lparr>pid = 4242, context = JStr []\<rparr>)"
    by (simp add: received_get_request handle_get_request daemon_handle_eof new_writer_def)
  from t n lost after show ?thesis
    by blast
qed

text \<open>
  Claim C9. The requests of one connection are handled in the order in which they
  arrive, and each reply is written before the next request is read: after \<^verbatim>\<open>set(a)\<close>,
  \<^verbatim>\<open>set(b)\<close> and \<^verbatim>\<open>get\<close> on one connection the replies are, in this order, two
  \<^verbatim>\<open>{"status": "ok"}\<close> and the context \<open>b\<close>.
\<close>

theorem last_write_wins:
  assumes "fault writer = None"
  shows "daemon_handle
           (Decodes (set_request a) # Decodes (set_request b) # Decodes get_request # rest)
           writer state =
         daemon_handle rest
           (writer\<lparr>out := out writer @ [ok_reply, ok_reply, context_reply (JStr b)]\<rparr>)
           (state\<lparr>context := JStr b\<rparr>)
       \<and> daemon_handle
           [Decodes (set_request a), Decodes (set_request b), Decodes get_request]
           writer state =
         (None,
          writer\<lparr>out := out writer @ [ok_reply, ok_reply, context_reply (JStr b)],
            closing := True\<rparr>,
          state\<lparr>context := JStr b\<rparr>)"
  using assms by (simp add: handle_set_request handle_get_request daemon_handle_eof)

theorem last_write_wins_witness:
  "fault new_writer = None
   \<and> daemon_handle
       [Decodes (set_request (lit ''A'')), Decodes (set_request (lit ''B'')), Decodes get_request]
       new_writer (new_state 4242) =
     (None,
      \<lparr>out = [JObj [(lit ''status'', JStr (lit ''ok''))], JObj [(lit ''status'', JStr (lit ''ok''))],
              JObj [(lit ''type'', JStr (lit ''context'')), (lit ''data'', JStr (lit ''B''))]],
       closing = True, fault = None\<rparr>,
      \<lparr>pid = 4242, context = JStr (lit ''B'')\<rparr>)"
proof -
  have f: "fault new_writer = None"
    by (simp add: new_writer_def)
  from f last_write_wins [OF f, of "lit ''A''" "lit ''B''" "[]" "new_state 4242", THEN conjunct2]
  show ?thesis
    by (simp add: new_writer_def new_state_def ok_reply_def context_reply_def)
qed

text \<open>
  Claim C10. A \<^verbatim>\<open>set\<close> request without a \<^verbatim>\<open>data\<close> field is not rejected and not
  ignored: it sets the context to the empty string and is answered with
  \<^verbatim>\<open>{"status": "ok"}\<close>.
\<close>

theorem set_without_data:
  assumes "map_of req (lit ''action'') = Some (JStr (lit ''set''))"
    and "map_of req (lit ''data'') = None"
    and "fault writer = None"
  shows "daemon_handle (Decodes (JObj req) # rest) writer state =
         daemon_handle rest
           (writer\<lparr>out := out writer @ [JObj [(lit ''status'', JStr (lit ''ok''))]]\<rparr>)
           (state\<lparr>context := JStr (lit '''')\<rparr>)"
  using handle_set [OF assms(1) assms(3)] assms(2)
  by (simp add: ok_reply_def)

theorem set_without_data_witness:
  "map_of [(lit ''action'', JStr (lit ''set''))] (lit ''action'') = Some (JStr (lit ''set''))
   \<and> map_of [(lit ''action'', JStr (lit ''set''))] (lit ''data'') = None
   \<and> fault new_writer = None
   \<and> daemon_handle [Decodes (JObj [(lit ''action'', JStr (lit ''set''))])] new_writer
       \<lparr>pid = 4242, context = JStr (lit ''old'')\<rparr> =
     (None, \<lparr>out = [JObj [(lit ''status'', JStr (lit ''ok''))]], closing = True, fault = None\<rparr>,
      \<lparr>pid = 4242, context = JStr (lit '''')\<rparr>)"
proof -
  have a: "map_of [(lit ''action'', JStr (lit ''set''))] (lit ''action'') = Some (JStr (lit ''set''))"
    by simp
  have d: "map_of [(lit ''action'', JStr (lit ''set''))] (lit ''data'') = None"
    by simp
  have f: "fault new_writer = None"
    by (simp add: new_writer_def)
  from a d f set_without_data [OF a d f, of "[]" "\<lparr>pid = 4242, context = JStr (lit ''old'')\<rparr>"]
  show ?thesis
    by (simp add: new_writer_def daemon_handle_eof)
qed

section \<open>Lines the daemon cannot serve\<close>





section \<open>The client reaching its daemon\<close>

lemma retry_connect_fail:
  "(\<And>j. k \<le> j \<Longrightarrow> j < k + n \<Longrightarrow> \<not> ok j) \<Longrightarrow>
   retry_connect n k ok p = (concat (replicate n [Sleep, Connect p False]), False)"
proof (induction n arbitrary: k)
  case 0
  show ?case by simp
next
  case (Suc n)
  have "\<not> ok k"
    using Suc.prems [of k] by simp
  moreover have "retry_connect n (Suc k) ok p = (concat (replicate n [Sleep, Connect p False]), False)"
    using Suc.prems by (intro Suc.IH) simp_all
  ultimately show ?case by simp
qed

lemma retry_connect_sleeps: "count_list (fst (retry_connect n k ok p)) Sleep \<le> n"
proof (induction n arbitrary: k)
  case 0
  show ?case by simp
next
  case (Suc n)
  obtain es r where eq: "retry_connect n (Suc k) ok p = (es, r)"
    by (cases "retry_connect n (Suc k) ok p")
  from Suc.IH [of "Suc k"] eq have "count_list es Sleep \<le> n"
    by simp
  with eq show ?case by simp
qed

lemma retry_connect_no_spawn: "RunDaemon q \<notin> set (fst (retry_connect n k ok p))"
proof (induction n arbitrary: k)
  case 0
  show ?case by simp
next
  case (Suc n)
  obtain es r where eq: "retry_connect n (Suc k) ok p = (es, r)"
    by (cases "retry_connect n (Suc k) ok p")
  from Suc.IH [of "Suc k"] eq have "RunDaemon q \<notin> set es"
    by simp
  with eq show ?case by simp
qed

lemma run_client_sleeps: "count_list (fst (run_client args env)) Sleep \<le> 20"
proof -
  obtain es r
    where eq: "retry_connect 20 1 (connect_ok env) (get_socket_path (getppid env)) = (es, r)"
    by (cases "retry_connect 20 1 (connect_ok env) (get_socket_path (getppid env))")
  from retry_connect_sleeps [of 20 1 "connect_ok env" "get_socket_path (getppid env)"] eq
  have "count_list es Sleep \<le> 20"
    by simp
  with eq show ?thesis
    by (simp add: run_client_def Let_def)
qed

lemma run_client_spawn_failure:
  assumes "\<not> help args" and "\<not> isolated args"
    and "\<not> falsy_str (read_stdin env) \<or> strip (join '' '' (prompt args)) \<noteq> []
         \<or> print_context args \<or> clear args"
    and "\<forall>k\<le>20. \<not> connect_ok env k"
  shows "run_client args env =
     (Connect (get_socket_path (getppid env)) False # RunDaemon (getppid env) #
        concat (replicate 20 [Sleep, Connect (get_socket_path (getppid env)) False])
        @ [PrintErr ''[Error] Daemon failed to start.''],
      Returned)"
proof -
  have first: "\<not> connect_ok env 0"
    using assms(4) by simp
  have "retry_connect 20 1 (connect_ok env) (get_socket_path (getppid env)) =
      (concat (replicate 20 [Sleep, Connect (get_socket_path (getppid env)) False]), False)"
    using assms(4) by (intro retry_connect_fail) simp
  with assms(1-3) first show ?thesis
    unfolding run_client_def Let_def by (simp del: replicate.simps concat.simps)
qed

lemma plain_args_simps:
  "\<not> help (plain_args ws)" "\<not> isolated (plain_args ws)" "\<not> print_context (plain_args ws)"
  "\<not> clear (plain_args ws)" "prompt (plain_args ws) = ws"
  by (simp_all add: plain_args_def)

lemma terminal_env_simps:
  "read_stdin (terminal_env p ok) = None" "getppid (terminal_env p ok) = p"
  "connect_ok (terminal_env p ok) = ok"
  by (simp_all add: terminal_env_def read_stdin_def)

lemma strip_hi: "strip ''hi'' = ''hi''"
  by (simp add: strip_def isspace_def)

lemma strip_no_words: "strip [] = []"
  by (simp add: strip_def)

text \<open>
  Claim C4, as the code has it. When the first connection attempt fails, the client
  starts one daemon and tries again up to 20 times, sleeping 0.1 seconds before each
  attempt. When all of these attempts fail it prints the single line
  \<^verbatim>\<open>[Error] Daemon failed to start.\<close> on standard error and returns, having sent no
  request; the process then ends with exit status 0.
\<close>

theorem spawn_failure_reported:
  assumes "\<not> help args" and "\<not> isolated args"
    and "\<not> falsy_str (read_stdin env) \<or> strip (join '' '' (prompt args)) \<noteq> []
         \<or> print_context args \<or> clear args"
    and "\<forall>k\<le>20. \<not> connect_ok env k"
  shows "run_client args env =
           (Connect (get_socket_path (getppid env)) False # RunDaemon (getppid env) #
              concat (replicate 20 [Sleep, Connect (get_socket_path (getppid env)) False])
              @ [PrintErr ''[Error] Daemon failed to start.''],
            Returned)
         \<and> exit_status (snd (run_client args env)) = Some 0"
  using run_client_spawn_failure [OF assms] by (simp add: exit_status_def)

theorem spawn_failure_reported_witness:
  "fst (run_client (plain_args [''hi'']) (terminal_env 4242 unreachable)) =
     Connect (CHR 0x00 # ''llm-daemon-4242'') False # RunDaemon 4242 #
       concat (replicate 20 [Sleep, Connect (CHR 0x00 # ''llm-daemon-4242'') False])
       @ [PrintErr ''[Error] Daemon failed to start.'']
   \<and> snd (run_client (plain_args [''hi'']) (terminal_env 4242 unreachable)) = Returned
   \<and> exit_status (snd (run_client (plain_args [''hi'']) (terminal_env 4242 unreachable)))
       = Some 0"
proof -
  have a: "\<not> help (plain_args [''hi''])" and b: "\<not> isolated (plain_args [''hi''])"
    by (simp_all add: plain_args_simps)
  have c: "\<not> falsy_str (read_stdin (terminal_env 4242 unreachable))
      \<or> strip (join '' '' (prompt (plain_args [''hi'']))) \<noteq> []
      \<or> print_context (plain_args [''hi'']) \<or> clear (plain_args [''hi''])"
    by (simp add: plain_args_simps strip_hi)
  have d: "\<forall>k\<le>20. \<not> connect_ok (terminal_env 4242 unreachable) k"
    by (simp add: terminal_env_simps unreachable_def)
  from spawn_failure_reported [OF a b c d] show ?thesis
    by (simp add: terminal_env_simps get_socket_path_4242 exit_status_def
        del: replicate.simps concat.simps)
qed

text \<open>
  With no daemon to reach, the invocation \<^verbatim>\<open>llm hi\<close> from the shell 4242 ends with exit
  status 0, not with a nonzero one.
\<close>

theorem spawn_failure_counterexample:
  "exit_status (snd (run_client (plain_args [''hi'']) (terminal_env 4242 unreachable))) = Some 0"
proof -
  have "run_client (plain_args [''hi'']) (terminal_env 4242 unreachable) =
     (Connect (get_socket_path 4242) False # RunDaemon 4242 #
        concat (replicate 20 [Sleep, Connect (get_socket_path 4242) False])
        @ [PrintErr ''[Error] Daemon failed to start.''],
      Returned)"
    using run_client_spawn_failure [of "plain_args [''hi'']" "terminal_env 4242 unreachable"]
    by (simp add: plain_args_simps terminal_env_simps strip_hi unreachable_def
        del: replicate.simps concat.simps)
  then show ?thesis
    by (simp add: exit_status_def)
qed

text \<open>
  Claim C6. An invocation without prompt words, without \<^verbatim>\<open>--print\<close>, \<^verbatim>\<open>--clear\<close>,
  \<^verbatim>\<open>--isolated\<close> and \<^verbatim>\<open>--help\<close>, and without data on standard input, only probes: it
  prints the banner, calls \<^verbatim>\<open>open_unix_connection\<close> once, closes the connection at once
  when the call succeeds, prints whether the daemon is running, and returns. It never
  calls \<^verbatim>\<open>run_daemon\<close>, it never waits and retries, and it returns before the first
  \<^verbatim>\<open>send_json\<close> of the client.
\<close>

theorem probe_only:
  assumes "\<not> help args" and "\<not> isolated args" and "\<not> print_context args" and "\<not> clear args"
    and "strip (join '' '' (prompt args)) = []"
    and "falsy_str (read_stdin env)"
  shows "run_client args env =
           (Print (''[Info] '' @ INFO) #
              (if connect_ok env 0
               then [Connect (get_socket_path (getppid env)) True, CloseWriter,
                     Print ''[Info] Daemon running'']
               else [Connect (get_socket_path (getppid env)) False,
                     Print ''[Info] Daemon not running'']),
            Returned)
         \<and> (\<forall>q. RunDaemon q \<notin> set (fst (run_client args env)))
         \<and> Sleep \<notin> set (fst (run_client args env))"
proof -
  have "run_client args env =
           (Print (''[Info] '' @ INFO) #
              (if connect_ok env 0
               then [Connect (get_socket_path (getppid env)) True, CloseWriter,
                     Print ''[Info] Daemon running'']
               else [Connect (get_socket_path (getppid env)) False,
                     Print ''[Info] Daemon not running'']),
            Returned)"
    using assms unfolding run_client_def Let_def by simp
  then show ?thesis by simp
qed

theorem probe_only_witness:
  "run_client (plain_args []) (terminal_env 4242 reachable) =
     ([Print ''[Info] PipeLLM by Ben Kantor, Beta 2'',
       Connect (CHR 0x00 # ''llm-daemon-4242'') True, CloseWriter,
       Print ''[Info] Daemon running''], Returned)
   \<and> run_client (plain_args []) (terminal_env 4242 unreachable) =
     ([Print ''[Info] PipeLLM by Ben Kantor, Beta 2'',
       Connect (CHR 0x00 # ''llm-daemon-4242'') False,
       Print ''[Info] Daemon not running''], Returned)"
proof -
  have a: "\<not> help (plain_args [])" and b: "\<not> isolated (plain_args [])"
    and c: "\<not> print_context (plain_args [])" and d: "\<not> clear (plain_args [])"
    by (simp_all add: plain_args_simps)
  have e: "strip (join '' '' (prompt (plain_args []))) = []"
    by (simp add: plain_args_simps strip_no_words)
  have f: "falsy_str (read_stdin (terminal_env 4242 ok))" for ok
    by (simp add: terminal_env_simps falsy_str_def)
  from probe_only [OF a b c d e f, of reachable, THEN conjunct1]
    probe_only [OF a b c d e f, of unreachable, THEN conjunct1]
  show ?thesis
    by (simp add: terminal_env_simps get_socket_path_4242 INFO_def reachable_def
        unreachable_def)
qed

section \<open>The end of the daemon\<close>

text \<open>
  Claim C3, on the code. The cleanup is registered with \<^verbatim>\<open>atexit\<close>, but the daemon
  leaves through \<^verbatim>\<open>os._exit(0)\<close> both when a poll finds the shell gone and when SIGTERM
  arrives, and \<^verbatim>\<open>os._exit\<close> runs no \<^verbatim>\<open>atexit\<close> handler: on these two paths the
  cleanup does not run. It runs only when the interpreter itself ends.
\<close>

theorem exit_paths_skip_atexit:
  "run_daemon_loop 4242 (Poll True # Poll False # events) = Some (Os_exit 0, [])
   \<and> run_daemon_loop 4242 (Poll True # SIGTERM # events) = Some (Os_exit 0, [])
   \<and> run_daemon_loop 4242 (Poll True # ServerStopped # events) =
       Some (Interpreter_exit, [Cleanup (CHR 0x00 # ''llm-daemon-4242'')])"
  by (simp add: run_daemon_loop_def get_socket_path_4242)

lemma daemon_exit_alive: "daemon_exit (replicate n (Poll True)) = None"
  by (induction n) simp_all

lemma daemon_exit_first_failed_poll:
  "daemon_exit (replicate n (Poll True) @ Poll False # events) = Some (Os_exit 0)"
  by (induction n) simp_all

lemma abstract_socket_path: "abstract_address (get_socket_path shell_pid)"
  by (simp add: abstract_address_def get_socket_path_def SOCKET_PREFIX_def)

text \<open>
  Claim C5. The liveness loop polls every 5 seconds. As long as the polls find the shell
  the daemon runs and its address exists. Once the shell is gone, the next poll, which
  comes within one polling interval, is the first to fail: it ends the daemon at once
  through \<^verbatim>\<open>os._exit(0)\<close>, whatever would have happened later, and the address, a name
  of the abstract namespace held by the daemon alone, exists no longer.
\<close>

theorem daemon_ends_with_its_shell:
  assumes "shell_pid \<noteq> 0"
  shows "run_daemon_loop shell_pid (replicate n (Poll True)) = None
         \<and> address_exists (get_socket_path shell_pid)
             (run_daemon_loop shell_pid (replicate n (Poll True)))
         \<and> run_daemon_loop shell_pid (replicate n (Poll True) @ Poll False # events) =
             Some (Os_exit 0, [])
         \<and> \<not> address_exists (get_socket_path shell_pid)
             (run_daemon_loop shell_pid (replicate n (Poll True) @ Poll False # events))"
  using assms
  by (simp add: run_daemon_loop_def daemon_exit_alive daemon_exit_first_failed_poll
      address_exists_def abstract_socket_path)

theorem daemon_ends_with_its_shell_witness:
  "(4242 :: int) \<noteq> 0
   \<and> run_daemon_loop 4242 [Poll True, Poll True] = None
   \<and> address_exists (CHR 0x00 # ''llm-daemon-4242'') (run_daemon_loop 4242 [Poll True, Poll True])
   \<and> run_daemon_loop 4242 [Poll True, Poll True, Poll False, Poll True] = Some (Os_exit 0, [])
   \<and> \<not> address_exists (CHR 0x00 # ''llm-daemon-4242'')
         (run_daemon_loop 4242 [Poll True, Poll True, Poll False, Poll True])"
proof -
  have p: "(4242 :: int) \<noteq> 0"
    by simp
  have two: "replicate 2 (Poll True) = [Poll True, Poll True]"
    by (simp add: numeral_2_eq_2)
  note ends = daemon_ends_with_its_shell [OF p, of 2 "[Poll True]",
      unfolded two get_socket_path_4242 append_Cons append_Nil]
  from p ends show ?thesis
    by blast
qed

end
